theory Spec2Isabelle
  imports Complex_Main
begin

section \<open>Python values shared by the modules\<close>

text \<open>
  The exceptions the modelled code can raise. A function that can raise returns
  \<open>py_error + 'a\<close>, with \<open>Inl\<close> for the exception.
\<close>

datatype py_error = KeyError | TypeError | ZeroDivisionError

text \<open>
  A Python \<open>dict\<close> with string keys is an association list of its items (the keys of a
  dict are distinct, so \<open>map_of\<close> reads it without ambiguity).
  \<open>d.get(k, default)\<close> never raises; \<open>d[k]\<close> raises \<open>KeyError\<close> on a missing key.
\<close>

definition dict_get :: "(string \<times> 'v) list \<Rightarrow> string \<Rightarrow> 'v \<Rightarrow> 'v" where
  "dict_get d k dflt = (case map_of d k of None \<Rightarrow> dflt | Some v \<Rightarrow> v)"

definition dict_getitem :: "(string \<times> 'v) list \<Rightarrow> string \<Rightarrow> py_error + 'v" where
  "dict_getitem d k = (case map_of d k of None \<Rightarrow> Inl KeyError | Some v \<Rightarrow> Inr v)"

text \<open>
  \<open>os.getenv(VAR, default)\<close>: the process environment holds either no value for the
  variable (\<open>None\<close>) or a string, which may be empty.
\<close>

definition getenv :: "string option \<Rightarrow> string \<Rightarrow> string" where
  "getenv var dflt = (case var of None \<Rightarrow> dflt | Some s \<Rightarrow> s)"

text \<open>
  \<open>name or os.getenv(VAR, default)\<close>: Python's \<open>or\<close> yields its left operand when that
  is truthy (a non-empty string) and its right operand otherwise, so both \<open>None\<close> and
  the empty string fall through to the environment.
\<close>

definition name_or_getenv :: "string option \<Rightarrow> string option \<Rightarrow> string \<Rightarrow> string" where
  "name_or_getenv name var dflt =
     (case name of
        None \<Rightarrow> getenv var dflt
      | Some n \<Rightarrow> (if n \<noteq> [] then n else getenv var dflt))"


section \<open>config.py: budgets and scenarios\<close>

record PerformanceBudget =
  max_p99_latency_ms :: int
  max_p95_latency_ms :: int
  max_avg_latency_ms :: int
  max_failure_rate_percent :: real
  min_rps :: int
  max_cpu_percent :: "int option"
  max_memory_mb :: "int option"
  max_error_rate_percent :: "real option"

record TestScenario =
  name :: string
  users :: int
  spawn_rate :: int
  duration :: string
  description :: string
  user_classes :: "string list"
  tags :: "string list option"

definition PERFORMANCE_BUDGETS :: "(string \<times> PerformanceBudget) list" where
  "PERFORMANCE_BUDGETS =
    [(''development'',
        \<lparr>max_p99_latency_ms = 300, max_p95_latency_ms = 200, max_avg_latency_ms = 100,
         max_failure_rate_percent = 1.0, min_rps = 50,
         max_cpu_percent = Some 80, max_memory_mb = Some 512,
         max_error_rate_percent = None\<rparr>),
     (''staging'',
        \<lparr>max_p99_latency_ms = 200, max_p95_latency_ms = 150, max_avg_latency_ms = 75,
         max_failure_rate_percent = 0.5, min_rps = 100,
         max_cpu_percent = Some 70, max_memory_mb = Some 1024,
         max_error_rate_percent = None\<rparr>),
     (''production'',
        \<lparr>max_p99_latency_ms = 150, max_p95_latency_ms = 100, max_avg_latency_ms = 50,
         max_failure_rate_percent = 0.1, min_rps = 200,
         max_cpu_percent = Some 60, max_memory_mb = Some 2048,
         max_error_rate_percent = None\<rparr>)]"

definition TEST_SCENARIOS :: "(string \<times> TestScenario) list" where
  "TEST_SCENARIOS =
    [(''smoke'',
        \<lparr>name = ''Smoke Test'', users = 10, spawn_rate = 5, duration = ''30s'',
         description = ''Quick smoke test to verify basic functionality'',
         user_classes = [''ProofMessengerUser''], tags = Some [''smoke'']\<rparr>),
     (''normal'',
        \<lparr>name = ''Normal Load'', users = 500, spawn_rate = 50, duration = ''2m'',
         description = ''Normal production load simulation'',
         user_classes = [''ProofMessengerUser''], tags = Some [''normal'']\<rparr>),
     (''peak'',
        \<lparr>name = ''Peak Hour Load'', users = 1000, spawn_rate = 100, duration = ''5m'',
         description = ''Peak hour traffic simulation'',
         user_classes = [''PeakHourUser'', ''ProofMessengerUser''],
         tags = Some [''peak'']\<rparr>),
     (''stress'',
        \<lparr>name = ''Stress Test'', users = 2000, spawn_rate = 200, duration = ''10m'',
         description = ''Stress test to find breaking point'',
         user_classes = [''PeakHourUser'', ''HighVolumeUser'', ''ProofMessengerUser''],
         tags = Some [''stress'']\<rparr>),
     (''capacity'',
        \<lparr>name = ''Capacity Test'', users = 5000, spawn_rate = 500, duration = ''15m'',
         description = ''Maximum capacity test'',
         user_classes = [''HighVolumeUser''], tags = Some [''capacity'']\<rparr>),
     (''endurance'',
        \<lparr>name = ''Endurance Test'', users = 800, spawn_rate = 80, duration = ''30m'',
         description = ''Long-running endurance test'',
         user_classes = [''ProofMessengerUser'', ''HighVolumeUser''],
         tags = Some [''endurance'']\<rparr>)]"

text \<open>
  \<open>PerformanceConfig.get_budget(environment)\<close> and
  \<open>PerformanceConfig.get_scenario(scenario_name)\<close>. The first argument of the model is
  the state of the environment variable (\<open>ENVIRONMENT\<close>, \<open>TEST_SCENARIO\<close>) the
  function reads. The default passed to \<open>.get\<close> is itself a subscript
  (\<open>PERFORMANCE_BUDGETS["development"]\<close>), evaluated before the call, which is where a
  \<open>KeyError\<close> could come from.
\<close>

definition get_budget :: "string option \<Rightarrow> string option \<Rightarrow> py_error + PerformanceBudget" where
  "get_budget ENVIRONMENT environment =
     (let env = name_or_getenv environment ENVIRONMENT ''development'' in
      case dict_getitem PERFORMANCE_BUDGETS ''development'' of
        Inl e \<Rightarrow> Inl e
      | Inr dflt \<Rightarrow> Inr (dict_get PERFORMANCE_BUDGETS env dflt))"

definition get_scenario :: "string option \<Rightarrow> string option \<Rightarrow> py_error + TestScenario" where
  "get_scenario TEST_SCENARIO scenario_name =
     (let scenario = name_or_getenv scenario_name TEST_SCENARIO ''normal'' in
      case dict_getitem TEST_SCENARIOS ''normal'' of
        Inl e \<Rightarrow> Inl e
      | Inr dflt \<Rightarrow> Inr (dict_get TEST_SCENARIOS scenario dflt))"


section \<open>locustfile.py: scenario user classes and the final report\<close>

datatype user_class = ProofMessengerUser | HighVolumeUser | PeakHourUser | OffPeakUser

definition get_user_classes_for_scenario :: "string \<Rightarrow> user_class list" where
  "get_user_classes_for_scenario scenario =
     (let scenarios =
        [(''normal'', [ProofMessengerUser]),
         (''peak'', [PeakHourUser, HighVolumeUser]),
         (''stress'', [PeakHourUser, HighVolumeUser, ProofMessengerUser]),
         (''capacity'', [HighVolumeUser])]
      in dict_get scenarios scenario [ProofMessengerUser])"

text \<open>
  Python's true division \<open>a / b\<close> raises \<open>ZeroDivisionError\<close> when \<open>b\<close> is zero. The
  quotient is a float in Python and a real number here.
\<close>

definition py_truediv :: "real \<Rightarrow> real \<Rightarrow> py_error + real" where
  "py_truediv a b = (if b = 0 then Inl ZeroDivisionError else Inr (a / b))"

text \<open>
  \<open>on_test_stop\<close> reads \<open>num_requests\<close> and \<open>num_failures\<close> from Locust's statistics and
  prints the failure rate only when there was at least one request. The model returns
  the failure rate it prints (\<open>None\<close> when it prints none); the average and the
  percentiles it prints next come straight from Locust's statistics object.
\<close>

definition on_test_stop :: "nat \<Rightarrow> nat \<Rightarrow> py_error + real option" where
  "on_test_stop total_requests total_failures =
     (if total_requests > 0 then
        (case py_truediv (real total_failures) (real total_requests) of
           Inl e \<Rightarrow> Inl e
         | Inr q \<Rightarrow> Inr (Some (q * 100)))
      else Inr None)"


section \<open>mock\_server.py\<close>

subsection \<open>JSON payloads\<close>

text \<open>
  What \<open>request.get_json()\<close> returns: \<open>None\<close>, a bool, a number, a string, a list or a
  dict with string keys.
\<close>

datatype json =
    JNull
  | JBool bool
  | JNum real
  | JStr string
  | JArr "json list"
  | JObj "(string \<times> json) list"

fun starts_with :: "string \<Rightarrow> string \<Rightarrow> bool" where
  "starts_with [] s = True"
| "starts_with (c # cs) [] = False"
| "starts_with (c # cs) (d # ds) = (c = d \<and> starts_with cs ds)"

fun is_substring :: "string \<Rightarrow> string \<Rightarrow> bool" where
  "is_substring k [] = (k = [])"
| "is_substring k (c # cs) = (starts_with k (c # cs) \<or> is_substring k cs)"

text \<open>
  \<open>key in payload\<close> for a string \<open>key\<close>: key membership in a dict, element membership in
  a list, substring test in a string, and \<open>TypeError\<close> for \<open>None\<close>, a bool or a number.
\<close>

fun py_contains :: "string \<Rightarrow> json \<Rightarrow> py_error + bool" where
  "py_contains k (JObj items) = Inr (map_of items k \<noteq> None)"
| "py_contains k (JArr xs) = Inr (JStr k \<in> set xs)"
| "py_contains k (JStr s) = Inr (is_substring k s)"
| "py_contains k JNull = Inl TypeError"
| "py_contains k (JBool b) = Inl TypeError"
| "py_contains k (JNum x) = Inl TypeError"

text \<open>
  \<open>payload[key]\<close> for a string \<open>key\<close>: the value in a dict (\<open>KeyError\<close> when absent) and
  \<open>TypeError\<close> for everything else (a list or a string indexed by a string, or a value
  that has no subscript).
\<close>

fun py_getitem :: "json \<Rightarrow> string \<Rightarrow> py_error + json" where
  "py_getitem (JObj items) k = dict_getitem items k"
| "py_getitem (JArr xs) k = Inl TypeError"
| "py_getitem (JStr s) k = Inl TypeError"
| "py_getitem JNull k = Inl TypeError"
| "py_getitem (JBool b) k = Inl TypeError"
| "py_getitem (JNum x) k = Inl TypeError"

fun is_dict :: "json \<Rightarrow> bool" where
  "is_dict (JObj items) = True"
| "is_dict j = False"

fun is_list :: "json \<Rightarrow> bool" where
  "is_list (JArr xs) = True"
| "is_list j = False"

subsection \<open>validate\_proof\_payload\<close>

text \<open>
  The two \<open>for field in ...: if field not in d: return False, ...\<close> loops: the first
  field of the list that the dict lacks, if any.
\<close>

fun first_missing :: "string list \<Rightarrow> (string \<times> json) list \<Rightarrow> string option" where
  "first_missing [] items = None"
| "first_missing (field # rest) items =
     (if map_of items field = None then Some field else first_missing rest items)"

definition validate_proof_payload :: "json \<Rightarrow> py_error + bool \<times> string" where
  "validate_proof_payload payload =
     (let required_fields = [''proof_bundle''] in
      case payload of
        JObj items \<Rightarrow>
          (case first_missing required_fields items of
             Some field \<Rightarrow> Inr (False, ''Missing required field: '' @ field)
           | None \<Rightarrow>
               (case py_getitem payload ''proof_bundle'' of
                  Inl e \<Rightarrow> Inl e
                | Inr proof_bundle \<Rightarrow>
                    (case proof_bundle of
                       JObj bundle \<Rightarrow>
                         (let bundle_fields = [''context'', ''signature''] in
                          case first_missing bundle_fields bundle of
                            Some field \<Rightarrow>
                              Inr (False, ''Missing required field in proof_bundle: '' @ field)
                          | None \<Rightarrow> Inr (True, ''Valid''))
                     | _ \<Rightarrow> Inr (False, ''proof_bundle must be an object''))))
      | _ \<Rightarrow> Inr (False, ''Payload must be a JSON object''))"

subsection \<open>Server state and the random source\<close>

text \<open>
  The global \<open>server_stats\<close> dict; \<open>start_time\<close> is in seconds on the clock that \<open>now\<close>
  is read from.
\<close>

record server_stats =
  requests_processed :: nat
  start_time :: real
  errors :: nat

text \<open>
  \<open>simulate_processing_time\<close> draws \<open>random.random()\<close> twice; the arguments \<open>r0\<close> and
  \<open>r1\<close> are the two draws. The \<open>time.sleep\<close> is not modelled; the value returned is.
\<close>

definition simulate_processing_time :: "string \<Rightarrow> real \<Rightarrow> real \<Rightarrow> real" where
  "simulate_processing_time endpoint_type r0 r1 =
     (let base_latency =
            [(''health'', 0.001), (''login'', 0.025), (''transaction'', 0.045),
             (''biometric'', 0.065), (''batch'', 0.120)];
          latency = dict_get base_latency endpoint_type 0.050;
          variance = latency * 0.2 * (r0 - 0.5);
          final_latency = max 0.001 (latency + variance)
      in if r1 < 0.05 then final_latency * 2 else final_latency)"

subsection \<open>batch\_verify\_proofs\<close>

text \<open>
  The loop over \<open>enumerate(proofs)\<close>. \<open>rnd k\<close> is the \<open>k\<close>-th value \<open>random.random()\<close>
  returns during the request, \<open>i\<close> the index of the proof, and the two accumulators are
  \<open>verified_count\<close> and \<open>failed_proofs\<close> (each entry an index and its error text).
\<close>

fun verify_each ::
  "(nat \<Rightarrow> real) \<Rightarrow> nat \<Rightarrow> nat \<Rightarrow> json list \<Rightarrow> nat \<Rightarrow> (nat \<times> string) list
     \<Rightarrow> nat \<times> (nat \<times> string) list" where
  "verify_each rnd k i [] verified_count failed_proofs = (verified_count, failed_proofs)"
| "verify_each rnd k i (p # proofs) verified_count failed_proofs =
     (if rnd k > 0.002
      then verify_each rnd (Suc k) (Suc i) proofs (verified_count + 1) failed_proofs
      else verify_each rnd (Suc k) (Suc i) proofs verified_count
             (failed_proofs @ [(i, ''Verification failed'')]))"

text \<open>
  The JSON bodies the endpoint answers with; the \<open>timestamp\<close> and the random \<open>batch_id\<close>
  are left out.
\<close>

datatype batch_body =
    BatchResult
      (total_count : nat)
      (verified_count : nat)
      (failed_count : nat)
      (failed_proofs : "(nat \<times> string) list")
      (processing_time_ms : real)
  | BatchError string

text \<open>
  The body of the \<open>try\<close> block, from the parsed payload. \<open>Inl\<close> is an exception, which
  the handler's \<open>except Exception\<close> turns into a 500; \<open>Inr\<close> is the status code and
  body returned. Exceptions arise only in the first test, before the state changes.
\<close>

definition batch_try ::
  "(nat \<Rightarrow> real) \<Rightarrow> real \<Rightarrow> json \<Rightarrow> py_error + nat \<times> batch_body" where
  "batch_try rnd processing_time payload =
     (case py_contains ''proofs'' payload of
        Inl e \<Rightarrow> Inl e
      | Inr present \<Rightarrow>
          if \<not> present then Inr (400, BatchError ''proofs field must be an array'')
          else
            (case py_getitem payload ''proofs'' of
               Inl e \<Rightarrow> Inl e
             | Inr proofs_value \<Rightarrow>
                 (case proofs_value of
                    JArr proofs \<Rightarrow>
                      (let batch_size = length proofs;
                           batch_processing_time = 0.010 * real batch_size;
                           (verified, failed) = verify_each rnd 2 0 proofs 0 []
                       in Inr (200, BatchResult batch_size verified (length failed) failed
                                 ((processing_time + batch_processing_time) * 1000)))
                  | _ \<Rightarrow> Inr (400, BatchError ''proofs field must be an array''))))"

text \<open>
  The handler. \<open>request_json\<close> is \<open>None\<close> when \<open>request.get_json()\<close> itself raises
  (a body that is not JSON), which the \<open>except\<close> clause catches like any other
  exception. The result is the new \<open>server_stats\<close>, the status code and the body.
\<close>

definition batch_verify_proofs ::
  "(nat \<Rightarrow> real) \<Rightarrow> server_stats \<Rightarrow> json option \<Rightarrow> server_stats \<times> nat \<times> batch_body" where
  "batch_verify_proofs rnd st request_json =
     (let processing_time = simulate_processing_time ''batch'' (rnd 0) (rnd 1);
          st1 = st\<lparr>requests_processed := requests_processed st + 1\<rparr>;
          failed_request = st1\<lparr>errors := errors st1 + 1\<rparr>
      in case request_json of
           None \<Rightarrow> (failed_request, 500, BatchError ''Internal server error'')
         | Some payload \<Rightarrow>
             (case batch_try rnd processing_time payload of
                Inl e \<Rightarrow> (failed_request, 500, BatchError ''Internal server error'')
              | Inr (code, body) \<Rightarrow>
                  if code = 200 then (st1, code, body) else (failed_request, code, body)))"

subsection \<open>get\_stats\<close>

record stats_body =
  stat_requests_processed :: nat
  stat_errors :: nat
  error_rate :: real
  uptime_seconds :: real
  requests_per_second :: real

text \<open>
  \<open>get_stats\<close>, at clock reading \<open>now\<close>. Both divisors are clamped below by 1 with
  \<open>max\<close>. The two \<open>isoformat\<close> time stamps of the body are left out.
\<close>

definition get_stats :: "server_stats \<Rightarrow> real \<Rightarrow> py_error + stats_body" where
  "get_stats st now =
     (let uptime = now - start_time st in
      case py_truediv (real (errors st)) (real (max 1 (requests_processed st))) of
        Inl e \<Rightarrow> Inl e
      | Inr rate \<Rightarrow>
          (case py_truediv (real (requests_processed st)) (max 1 uptime) of
             Inl e \<Rightarrow> Inl e
           | Inr rps \<Rightarrow>
               Inr \<lparr>stat_requests_processed = requests_processed st,
                    stat_errors = errors st,
                    error_rate = rate,
                    uptime_seconds = uptime,
                    requests_per_second = rps\<rparr>))"


section \<open>The budget evaluator\<close>

text \<open>
  The source files at hand declare the budgets and the alert table and call the budget
  runner (\<open>run_perf_test.sh\<close>, started by \<open>demo.py\<close>), but the evaluation of a sample
  set against a budget is in none of them. Its model follows the specification.
\<close>

text \<open>
  Modelled from the spec: the three alert tiers, the two directions of a threshold and
  the outcome of the classifier of section 4.3, none of which the source declares as a
  type (the tiers are the keys of \<open>PERFORMANCE_ALERTS\<close>).
\<close>

datatype severity = critical | warning | info

datatype direction = at_most | at_least

datatype classification = passing | violated severity

text \<open>
  Modelled from the spec: the three ratio bands of the alert severity classifier, which
  is absent from the source (\<open>PERFORMANCE_ALERTS\<close> is a table no function reads).
  "ratio \<open>\<ge>\<close> 2x threshold: critical; \<open>\<ge>\<close> 1.5x: warning; otherwise: info". The
  bands are compared by multiplication, \<open>over \<ge> 2 * base\<close>, which is the comparison of
  the ratio \<open>over / base\<close> wherever that ratio exists and leaves no undefined region at
  \<open>base = 0\<close>, as the spec requires ("total over all non-negative inputs").
\<close>

definition overage_tier :: "real \<Rightarrow> real \<Rightarrow> severity" where
  "overage_tier over base =
     (if over \<ge> 2 * base then critical
      else if over \<ge> 1.5 * base then warning
      else info)"

text \<open>
  Modelled from the spec: the alert severity classifier (section 4.3), absent from the
  source. Given an observed/threshold pair and a direction it returns a tier; an
  observed value that satisfies the threshold, equality included, "must be classified as
  passing, not as the lowest violation tier". For an \<open>at_least\<close> metric the ratio is
  inverted. An unknown direction is excluded by the type.
\<close>

definition classify_severity :: "real \<Rightarrow> real \<Rightarrow> direction \<Rightarrow> classification" where
  "classify_severity obs thr dir =
     (case dir of
        at_most \<Rightarrow> (if obs \<le> thr then passing else violated (overage_tier obs thr))
      | at_least \<Rightarrow> (if obs \<ge> thr then passing else violated (overage_tier thr obs)))"

text \<open>
  Modelled from the spec: the \<open>SampleSet\<close> entries, the \<open>Verdict\<close> with its violations and
  summary statistics, and the two error kinds of section 7, all absent from the source.
\<close>

record sample =
  latency_ms :: real
  success :: bool
  endpoint :: "string option"

record violation =
  metric :: string
  observed :: real
  threshold :: real
  severity :: severity

record summary_stats =
  p50 :: real
  p95 :: real
  p99 :: real
  avg :: real
  rps :: real
  failure_rate_percent :: real

record Verdict =
  passed :: bool
  violations :: "violation list"
  summary_stats :: summary_stats

datatype evaluation_error = ValidationError | ConfigurationError

text \<open>
  Modelled from the spec: the aggregate statistics of step 2 of the evaluator, absent
  from the source. The percentile is the nearest rank: "sort ascending, index =
  ceil(percentile x count) - 1, clamped to valid range". The failure rate is
  "100 x failed_count / total_count (0% if total_count is 0)". The spec gives no latency
  statistic for the empty sample set; the model reports 0 there.
\<close>

definition nearest_rank :: "real \<Rightarrow> real list \<Rightarrow> real" where
  "nearest_rank p xs =
     (if xs = [] then 0
      else sort xs ! min (nat (\<lceil>p * real (length xs)\<rceil> - 1)) (length xs - 1))"

definition average :: "real list \<Rightarrow> real" where
  "average xs = (if xs = [] then 0 else sum_list xs / real (length xs))"

definition failure_rate :: "sample list \<Rightarrow> real" where
  "failure_rate samples =
     (if samples = [] then 0
      else 100 * real (length (filter (\<lambda>s. \<not> success s) samples)) / real (length samples))"

text \<open>
  Modelled from the spec: one comparison of step 3 of the evaluator, absent from the
  source. "Any violated comparison appends one violation entry recording the metric
  name, observed value, threshold, and a severity tier".
\<close>

definition check :: "string \<Rightarrow> real \<Rightarrow> real \<Rightarrow> direction \<Rightarrow> violation list" where
  "check m obs thr dir =
     (case classify_severity obs thr dir of
        passing \<Rightarrow> []
      | violated sev \<Rightarrow> [\<lparr>metric = m, observed = obs, threshold = thr, severity = sev\<rparr>])"

text \<open>
  Modelled from the spec: \<open>evaluate(budget, samples, duration)\<close> of section 4.2, absent
  from the source, as every claim calls it: without the optional \<open>endpoint_overrides\<close>,
  so that all samples are "one group evaluated against the top-level budget". A
  negative latency is a \<open>ValidationError\<close> (a non-boolean success flag is excluded by the
  type), checked "before computing aggregates"; a zero or negative duration is a
  \<open>ConfigurationError\<close>. The empty sample set is "automatically passing latency/failure
  checks"; throughput is \<open>total_count / duration\<close> and is always compared with
  \<open>min_rps\<close>. \<open>passed\<close> is true iff the list of violations is empty.
\<close>

definition evaluate ::
  "PerformanceBudget \<Rightarrow> sample list \<Rightarrow> real \<Rightarrow> evaluation_error + Verdict" where
  "evaluate budget samples seconds =
     (if \<exists>s \<in> set samples. latency_ms s < 0 then Inl ValidationError
      else if seconds \<le> 0 then Inl ConfigurationError
      else
        (let latencies = map latency_ms samples;
             st = \<lparr>p50 = nearest_rank 0.50 latencies,
                   p95 = nearest_rank 0.95 latencies,
                   p99 = nearest_rank 0.99 latencies,
                   avg = average latencies,
                   rps = real (length samples) / seconds,
                   failure_rate_percent = failure_rate samples\<rparr>;
             vs = (if samples = [] then []
                   else check ''max_avg_latency_ms'' (avg st)
                          (real_of_int (max_avg_latency_ms budget)) at_most
                      @ check ''max_p95_latency_ms'' (p95 st)
                          (real_of_int (max_p95_latency_ms budget)) at_most
                      @ check ''max_p99_latency_ms'' (p99 st)
                          (real_of_int (max_p99_latency_ms budget)) at_most
                      @ check ''max_failure_rate_percent'' (failure_rate_percent st)
                          (max_failure_rate_percent budget) at_most)
                  @ check ''min_rps'' (rps st) (real_of_int (min_rps budget)) at_least
         in Inr \<lparr>passed = (vs = []), violations = vs, summary_stats = st\<rparr>))"


section \<open>Properties of the configuration lookups\<close>

lemma map_of_absent: "k \<notin> fst ` set d \<Longrightarrow> map_of d k = None"
  by (simp add: map_of_eq_None_iff)

lemma map_of_present: "(map_of items k \<noteq> None) = (k \<in> fst ` set items)"
  by (simp add: map_of_eq_None_iff)

lemma development_present: "\<exists>b. dict_getitem PERFORMANCE_BUDGETS ''development'' = Inr b"
  by (simp add: dict_getitem_def PERFORMANCE_BUDGETS_def)

lemma normal_present: "\<exists>s. dict_getitem TEST_SCENARIOS ''normal'' = Inr s"
  by (simp add: dict_getitem_def TEST_SCENARIOS_def)

text \<open>
  Both lookups in one equation each: the resolved name is looked up, and a miss gives
  the default entry.
\<close>

lemma get_budget_eq:
  "get_budget E n =
     (case map_of PERFORMANCE_BUDGETS (name_or_getenv n E ''development'') of
        None \<Rightarrow> dict_getitem PERFORMANCE_BUDGETS ''development''
      | Some b \<Rightarrow> Inr b)"
  using development_present
  by (auto simp: get_budget_def dict_get_def split: option.splits)

lemma get_scenario_eq:
  "get_scenario T n =
     (case map_of TEST_SCENARIOS (name_or_getenv n T ''normal'') of
        None \<Rightarrow> dict_getitem TEST_SCENARIOS ''normal''
      | Some s \<Rightarrow> Inr s)"
  using normal_present
  by (auto simp: get_scenario_def dict_get_def split: option.splits)

text \<open>
  The scenario lookup of \<open>locustfile.py\<close> has no \<open>or\<close>: every name outside its table,
  the empty one included, gives the default list.
\<close>

lemma get_user_classes_for_scenario_default:
  "scenario \<notin> {''normal'', ''peak'', ''stress'', ''capacity''} \<Longrightarrow>
     get_user_classes_for_scenario scenario = [ProofMessengerUser]"
  by (simp add: get_user_classes_for_scenario_def dict_get_def)

text \<open>
  C1, as stated, fails at the empty name: the empty string is not a key of the budget
  table, yet with \<open>ENVIRONMENT=production\<close> the call \<open>get_budget("")\<close> returns the
  production budget, which is not the development budget.
\<close>

theorem get_budget_empty_name_counterexample:
  "[] \<notin> fst ` set PERFORMANCE_BUDGETS \<and>
   get_budget (Some ''production'') (Some []) = dict_getitem PERFORMANCE_BUDGETS ''production'' \<and>
   dict_getitem PERFORMANCE_BUDGETS ''production'' \<noteq>
     dict_getitem PERFORMANCE_BUDGETS ''development''"
  by (simp add: get_budget_eq name_or_getenv_def getenv_def dict_getitem_def
        PERFORMANCE_BUDGETS_def)

text \<open>
  C1 (amended): for every non-empty environment name that is not a key of the budget
  table, \<open>get_budget\<close> returns the \<open>"development"\<close> budget, and for every non-empty
  scenario name that is not a key of the scenario table, \<open>get_scenario\<close> returns the
  \<open>"normal"\<close> scenario, whatever the environment variables hold. Given \<open>None\<close>, the name
  is the value of the environment variable, or \<open>"development"\<close> / \<open>"normal"\<close> when the
  variable is unset, and that name is looked up with the same fallback. Neither lookup
  raises, for any argument and any environment.
\<close>

theorem get_budget_get_scenario_fallback:
  "(nm \<noteq> [] \<longrightarrow> nm \<notin> fst ` set PERFORMANCE_BUDGETS \<longrightarrow>
      get_budget E (Some nm) = dict_getitem PERFORMANCE_BUDGETS ''development'') \<and>
   (snm \<noteq> [] \<longrightarrow> snm \<notin> fst ` set TEST_SCENARIOS \<longrightarrow>
      get_scenario T (Some snm) = dict_getitem TEST_SCENARIOS ''normal'') \<and>
   get_budget E None =
     (case map_of PERFORMANCE_BUDGETS (getenv E ''development'') of
        None \<Rightarrow> dict_getitem PERFORMANCE_BUDGETS ''development''
      | Some b \<Rightarrow> Inr b) \<and>
   get_scenario T None =
     (case map_of TEST_SCENARIOS (getenv T ''normal'') of
        None \<Rightarrow> dict_getitem TEST_SCENARIOS ''normal''
      | Some s \<Rightarrow> Inr s) \<and>
   (\<exists>b. get_budget E environment = Inr b) \<and>
   (\<exists>s. get_scenario T scenario_name = Inr s) \<and>
   (\<exists>b. dict_getitem PERFORMANCE_BUDGETS ''development'' = Inr b) \<and>
   (\<exists>s. dict_getitem TEST_SCENARIOS ''normal'' = Inr s)"
proof -
  have a: "nm \<noteq> [] \<longrightarrow> nm \<notin> fst ` set PERFORMANCE_BUDGETS \<longrightarrow>
      get_budget E (Some nm) = dict_getitem PERFORMANCE_BUDGETS ''development''"
    by (simp add: get_budget_eq name_or_getenv_def map_of_absent)
  have b: "snm \<noteq> [] \<longrightarrow> snm \<notin> fst ` set TEST_SCENARIOS \<longrightarrow>
      get_scenario T (Some snm) = dict_getitem TEST_SCENARIOS ''normal''"
    by (simp add: get_scenario_eq name_or_getenv_def map_of_absent)
  have c: "get_budget E None =
     (case map_of PERFORMANCE_BUDGETS (getenv E ''development'') of
        None \<Rightarrow> dict_getitem PERFORMANCE_BUDGETS ''development''
      | Some b \<Rightarrow> Inr b)"
    by (simp add: get_budget_eq name_or_getenv_def)
  have d: "get_scenario T None =
     (case map_of TEST_SCENARIOS (getenv T ''normal'') of
        None \<Rightarrow> dict_getitem TEST_SCENARIOS ''normal''
      | Some s \<Rightarrow> Inr s)"
    by (simp add: get_scenario_eq name_or_getenv_def)
  have e: "\<exists>b. get_budget E environment = Inr b"
    using development_present by (auto simp: get_budget_eq split: option.splits)
  have f: "\<exists>s. get_scenario T scenario_name = Inr s"
    using normal_present by (auto simp: get_scenario_eq split: option.splits)
  from a b c d e f development_present normal_present show ?thesis by blast
qed

text \<open>
  The fallback at concrete names: \<open>"qa"\<close> and \<open>"soak"\<close> are in neither table, and the
  environment names \<open>staging\<close> and \<open>peak\<close>.
\<close>

theorem get_budget_get_scenario_fallback_witness:
  "get_budget (Some ''staging'') (Some ''qa'') =
     dict_getitem PERFORMANCE_BUDGETS ''development'' \<and>
   get_scenario (Some ''peak'') (Some ''soak'') = dict_getitem TEST_SCENARIOS ''normal'' \<and>
   get_budget (Some ''staging'') None = dict_getitem PERFORMANCE_BUDGETS ''staging'' \<and>
   get_scenario (Some ''peak'') None = dict_getitem TEST_SCENARIOS ''peak''"
proof -
  have h1: "''qa'' \<noteq> []" "''qa'' \<notin> fst ` set PERFORMANCE_BUDGETS"
    by (simp_all add: PERFORMANCE_BUDGETS_def)
  have h2: "''soak'' \<noteq> []" "''soak'' \<notin> fst ` set TEST_SCENARIOS"
    by (simp_all add: TEST_SCENARIOS_def)
  have h3: "map_of PERFORMANCE_BUDGETS (getenv (Some ''staging'') ''development'') =
              map_of PERFORMANCE_BUDGETS ''staging''"
    by (simp add: getenv_def)
  have h4: "map_of TEST_SCENARIOS (getenv (Some ''peak'') ''normal'') =
              map_of TEST_SCENARIOS ''peak''"
    by (simp add: getenv_def)
  have s: "\<exists>b. map_of PERFORMANCE_BUDGETS ''staging'' = Some b"
    by (simp add: PERFORMANCE_BUDGETS_def)
  have p: "\<exists>b. map_of TEST_SCENARIOS ''peak'' = Some b"
    by (simp add: TEST_SCENARIOS_def)
  show ?thesis
    using get_budget_get_scenario_fallback
            [of "''qa''" "Some ''staging''" "''soak''" "Some ''peak''"] h1 h2 s p
    by (auto simp: h3 h4 dict_getitem_def)
qed

text \<open>
  C9: called with the empty string, \<open>get_budget\<close> and \<open>get_scenario\<close> do what they do
  when called with \<open>None\<close>, in every environment: the name comes from the environment
  variable, or is the default name when the variable is unset, and it is that name
  which is looked up in the table.
\<close>

theorem empty_name_is_none:
  "get_budget E (Some []) = get_budget E None \<and>
   get_scenario T (Some []) = get_scenario T None \<and>
   get_budget E (Some []) =
     (case map_of PERFORMANCE_BUDGETS (getenv E ''development'') of
        None \<Rightarrow> dict_getitem PERFORMANCE_BUDGETS ''development''
      | Some b \<Rightarrow> Inr b) \<and>
   get_scenario T (Some []) =
     (case map_of TEST_SCENARIOS (getenv T ''normal'') of
        None \<Rightarrow> dict_getitem TEST_SCENARIOS ''normal''
      | Some s \<Rightarrow> Inr s)"
  by (simp add: get_budget_eq get_scenario_eq name_or_getenv_def)

text \<open>
  C7: every scenario of the static table \<open>TEST_SCENARIOS\<close> has a positive number of
  users and a positive spawn rate that does not exceed the number of users.
\<close>

theorem test_scenarios_users_spawn_rate:
  "(k, s) \<in> set TEST_SCENARIOS \<Longrightarrow>
     0 < users s \<and> 0 < spawn_rate s \<and> spawn_rate s \<le> users s"
  by (auto simp: TEST_SCENARIOS_def)

text \<open>The entry \<open>"smoke"\<close> of the table: 10 users, spawned 5 at a time.\<close>

theorem test_scenarios_users_spawn_rate_witness:
  "0 < users (the (map_of TEST_SCENARIOS ''smoke'')) \<and>
   0 < spawn_rate (the (map_of TEST_SCENARIOS ''smoke'')) \<and>
   spawn_rate (the (map_of TEST_SCENARIOS ''smoke'')) \<le>
     users (the (map_of TEST_SCENARIOS ''smoke''))"
proof -
  have "(''smoke'', the (map_of TEST_SCENARIOS ''smoke'')) \<in> set TEST_SCENARIOS"
    by (simp add: TEST_SCENARIOS_def)
  from test_scenarios_users_spawn_rate [OF this] show ?thesis .
qed


section \<open>Properties of the mock server\<close>

subsection \<open>Payload validation\<close>

text \<open>
  C10: \<open>validate_proof_payload\<close> never raises, whatever the payload. It returns
  \<open>(True, "Valid")\<close> exactly when the payload is a dict with a key \<open>proof_bundle\<close> whose
  value is a dict that has both keys \<open>context\<close> and \<open>signature\<close>; in every other case it
  returns \<open>False\<close> with a message that is not empty.
\<close>

theorem validate_proof_payload_valid_iff:
  "(\<exists>r. validate_proof_payload payload = Inr r) \<and>
   (validate_proof_payload payload = Inr (True, ''Valid'') \<longleftrightarrow>
      (\<exists>items bundle. payload = JObj items \<and>
         map_of items ''proof_bundle'' = Some (JObj bundle) \<and>
         ''context'' \<in> fst ` set bundle \<and> ''signature'' \<in> fst ` set bundle)) \<and>
   (validate_proof_payload payload \<noteq> Inr (True, ''Valid'') \<longrightarrow>
      (\<exists>msg. validate_proof_payload payload = Inr (False, msg) \<and> msg \<noteq> []))"
  by (cases payload)
     (auto simp: validate_proof_payload_def dict_getitem_def map_of_present[symmetric]
           split: option.splits json.splits)

text \<open>A payload whose \<open>proof_bundle\<close> is a string is rejected with a message.\<close>

theorem validate_proof_payload_valid_iff_witness:
  "\<exists>msg. validate_proof_payload (JObj [(''proof_bundle'', JStr ''x'')]) = Inr (False, msg) \<and>
         msg \<noteq> []"
proof -
  have "validate_proof_payload (JObj [(''proof_bundle'', JStr ''x'')]) \<noteq> Inr (True, ''Valid'')"
    by (simp add: validate_proof_payload_def dict_getitem_def)
  with validate_proof_payload_valid_iff [of "JObj [(''proof_bundle'', JStr ''x'')]"]
  show ?thesis by blast
qed

subsection \<open>Batch verification\<close>

text \<open>
  The loop invariant: each proof adds one either to \<open>verified_count\<close> or to
  \<open>failed_proofs\<close>, whatever the random source returns.
\<close>

lemma verify_each_counts:
  "verify_each rnd k i ps v f = (v', f') \<Longrightarrow> v' + length f' = v + length f + length ps"
  by (induction ps arbitrary: k i v f) (auto split: if_splits)

lemma batch_try_200:
  "batch_try rnd t payload = Inr (200, body) \<Longrightarrow>
     \<exists>items proofs v f ms. payload = JObj items \<and>
        map_of items ''proofs'' = Some (JArr proofs) \<and>
        body = BatchResult (length proofs) v (length f) f ms \<and> v + length f = length proofs"
  by (cases payload)
     (auto simp: batch_try_def dict_getitem_def Let_def
           split: if_splits option.splits json.splits prod.splits sum.splits
           dest: verify_each_counts)

lemma batch_try_list:
  "map_of items ''proofs'' = Some (JArr proofs) \<Longrightarrow>
     \<exists>v f ms. batch_try rnd t (JObj items) =
                 Inr (200, BatchResult (length proofs) v (length f) f ms) \<and>
               v + length f = length proofs"
  by (auto simp: batch_try_def dict_getitem_def Let_def split: prod.splits
           dest: verify_each_counts)

text \<open>
  C8: whatever the random source, the state and the request, a response of
  \<open>batch_verify_proofs\<close> with status 200 comes from a dict payload whose \<open>proofs\<close> field
  is a list, its \<open>total_count\<close> is the length of that list, and
  \<open>verified_count + failed_count = total_count\<close>. Conversely every payload whose
  \<open>proofs\<close> field is a list is answered with status 200 and such counts.
\<close>

theorem batch_verify_proofs_counts:
  "(batch_verify_proofs rnd st request_json = (st', 200, body) \<longrightarrow>
      (\<exists>items proofs v f ms. request_json = Some (JObj items) \<and>
         map_of items ''proofs'' = Some (JArr proofs) \<and>
         body = BatchResult (length proofs) v (length f) f ms \<and>
         total_count body = length proofs \<and>
         verified_count body + failed_count body = total_count body)) \<and>
   (map_of items0 ''proofs'' = Some (JArr proofs0) \<longrightarrow>
      (\<exists>st1 v f ms. batch_verify_proofs rnd st (Some (JObj items0)) =
            (st1, 200, BatchResult (length proofs0) v (length f) f ms) \<and>
          v + length f = length proofs0))"
proof (intro conjI impI)
  assume a: "batch_verify_proofs rnd st request_json = (st', 200, body)"
  then obtain payload t where p: "request_json = Some payload" and
     b: "batch_try rnd t payload = Inr (200, body)"
    by (auto simp: batch_verify_proofs_def Let_def
             split: option.splits sum.splits prod.splits if_splits)
  from batch_try_200 [OF b] p
  show "\<exists>items proofs v f ms. request_json = Some (JObj items) \<and>
         map_of items ''proofs'' = Some (JArr proofs) \<and>
         body = BatchResult (length proofs) v (length f) f ms \<and>
         total_count body = length proofs \<and>
         verified_count body + failed_count body = total_count body"
    by auto
next
  assume a: "map_of items0 ''proofs'' = Some (JArr proofs0)"
  from batch_try_list [OF a, of rnd "simulate_processing_time ''batch'' (rnd 0) (rnd 1)"]
  show "\<exists>st1 v f ms. batch_verify_proofs rnd st (Some (JObj items0)) =
            (st1, 200, BatchResult (length proofs0) v (length f) f ms) \<and>
          v + length f = length proofs0"
    by (auto simp: batch_verify_proofs_def Let_def)
qed

text \<open>A batch of two proofs, as the load generator's \<open>HighVolumeUser\<close> sends it.\<close>

theorem batch_verify_proofs_counts_witness:
  "\<exists>st1 v f ms.
     batch_verify_proofs (\<lambda>k. 0.5) \<lparr>requests_processed = 0, start_time = 0, errors = 0\<rparr>
       (Some (JObj [(''proofs'', JArr [JNull, JNull]), (''client_id'', JStr ''c'')])) =
       (st1, 200, BatchResult 2 v (length f) f ms) \<and> v + length f = 2"
proof -
  have "map_of [(''proofs'', JArr [JNull, JNull]), (''client_id'', JStr ''c'')] ''proofs'' =
          Some (JArr [JNull, JNull])"
    by simp
  with batch_verify_proofs_counts
         [of "\<lambda>k. 0.5" "\<lparr>requests_processed = 0, start_time = 0, errors = 0\<rparr>" _ _ _
             "[(''proofs'', JArr [JNull, JNull]), (''client_id'', JStr ''c'')]"
             "[JNull, JNull]"]
  show ?thesis by (simp add: numeral_2_eq_2)
qed

subsection \<open>Server statistics\<close>

text \<open>
  \<open>get_stats\<close> never raises: both divisors are clamped below by 1. The throughput it
  reports is \<open>requests_processed / max(1, uptime)\<close>, and its \<open>error_rate\<close> is the quotient
  \<open>errors / max(1, requests_processed)\<close> of the two counters.
\<close>

lemma get_stats_requests_per_second:
  "\<exists>r. get_stats st now = Inr r \<and>
        requests_per_second r = real (requests_processed st) / max 1 (now - start_time st)"
  by (auto simp: get_stats_def py_truediv_def Let_def max_def)

lemma get_stats_error_rate:
  "\<exists>r. get_stats st now = Inr r \<and>
        error_rate r = real (errors st) / real (max 1 (requests_processed st))"
  by (auto simp: get_stats_def py_truediv_def Let_def max_def)


section \<open>Properties of the load test's final report\<close>

text \<open>
  Whenever at least one request was made, the failure rate that \<open>on_test_stop\<close> prints
  is \<open>100 * total_failures / total_requests\<close>, a percentage. (Over the reals; the
  source computes it in floating point as \<open>(total_failures / total_requests) * 100\<close>.)
\<close>

lemma on_test_stop_failure_rate:
  "0 < total_requests \<Longrightarrow>
     on_test_stop total_requests total_failures =
       Inr (Some (100 * real total_failures / real total_requests))"
  by (simp add: on_test_stop_def py_truediv_def)


section \<open>Properties of the budget evaluator\<close>

text \<open>
  C3: the classifier is a function of its three arguments alone, defined for every
  observed value, threshold and direction. An observed value equal to its threshold is
  classified as passing in both directions; more generally the classification is
  passing exactly when the threshold is satisfied.
\<close>

theorem classify_severity_threshold_passing:
  "classify_severity x x dir = passing \<and>
   (classify_severity obs thr at_most = passing) = (obs \<le> thr) \<and>
   (classify_severity obs thr at_least = passing) = (thr \<le> obs)"
  by (cases dir) (simp_all add: classify_severity_def)

text \<open>A p99 of 150 ms against a budget of 150 ms, and 100 rps against a floor of 100.\<close>

theorem classify_severity_threshold_passing_witness:
  "classify_severity 150 150 at_most = passing \<and>
   classify_severity 100 100 at_least = passing"
  using classify_severity_threshold_passing [of 150 at_most]
        classify_severity_threshold_passing [of 100 at_least]
  by simp

text \<open>
  C2: every verdict \<open>evaluate\<close> produces has \<open>passed\<close> true if and only if its list of
  violations is empty; and for every budget, every sample set without a negative latency
  and every positive duration, \<open>evaluate\<close> does produce a verdict.
\<close>

theorem evaluate_passed_iff_no_violations:
  "(evaluate budget samples seconds = Inr v \<longrightarrow> passed v = (violations v = [])) \<and>
   ((\<forall>s \<in> set samples. 0 \<le> latency_ms s) \<and> 0 < seconds \<longrightarrow>
      (\<exists>w. evaluate budget samples seconds = Inr w \<and> passed w = (violations w = [])))"
proof (intro conjI impI)
  assume "evaluate budget samples seconds = Inr v"
  then show "passed v = (violations v = [])"
    by (auto simp: evaluate_def Let_def split: if_splits)
next
  assume a: "(\<forall>s \<in> set samples. 0 \<le> latency_ms s) \<and> 0 < seconds"
  then have "\<not> (\<exists>s \<in> set samples. latency_ms s < 0)"
    by (auto simp: not_less)
  with a show "\<exists>w. evaluate budget samples seconds = Inr w \<and> passed w = (violations w = [])"
    by (simp add: evaluate_def Let_def)
qed

text \<open>One successful request of 120 ms in a run of 10 seconds.\<close>

theorem evaluate_passed_iff_no_violations_witness:
  "\<exists>w. evaluate
          \<lparr>max_p99_latency_ms = 150, max_p95_latency_ms = 100, max_avg_latency_ms = 50,
           max_failure_rate_percent = 0.1, min_rps = 200,
           max_cpu_percent = None, max_memory_mb = None, max_error_rate_percent = None\<rparr>
          [\<lparr>latency_ms = 120, success = True, endpoint = None\<rparr>] 10 = Inr w \<and>
        passed w = (violations w = [])"
proof -
  have "(\<forall>s \<in> set [\<lparr>latency_ms = 120, success = True, endpoint = None\<rparr>]. 0 \<le> latency_ms s)
          \<and> (0::real) < 10"
    by simp
  with evaluate_passed_iff_no_violations
         [of _ "[\<lparr>latency_ms = 120, success = True, endpoint = None\<rparr>]" 10]
  show ?thesis by blast
qed

text \<open>
  C6: for every budget and every positive duration, evaluating the empty sample set
  gives a verdict with a failure rate of 0 and without any latency or failure-rate
  violation: its list of violations is the single \<open>min_rps\<close> violation (observed
  throughput 0) when the budget's \<open>min_rps\<close> is strictly positive, and empty otherwise.
\<close>

theorem evaluate_empty_sample_set:
  "0 < seconds \<Longrightarrow>
   \<exists>v. evaluate budget [] seconds = Inr v \<and>
       failure_rate_percent (summary_stats v) = 0 \<and>
       violations v =
         (if 0 < min_rps budget
          then [\<lparr>metric = ''min_rps'', observed = 0,
                 threshold = real_of_int (min_rps budget), severity = critical\<rparr>]
          else []) \<and>
       passed v = (min_rps budget \<le> 0)"
  by (auto simp: evaluate_def Let_def check_def classify_severity_def overage_tier_def
        failure_rate_def)

text \<open>The production thresholds, no sample, a run of 30 seconds.\<close>

theorem evaluate_empty_sample_set_witness:
  "\<exists>v. evaluate
          \<lparr>max_p99_latency_ms = 150, max_p95_latency_ms = 100, max_avg_latency_ms = 50,
           max_failure_rate_percent = 0.1, min_rps = 200,
           max_cpu_percent = None, max_memory_mb = None, max_error_rate_percent = None\<rparr>
          [] 30 = Inr v \<and>
       failure_rate_percent (summary_stats v) = 0 \<and>
       violations v =
         [\<lparr>metric = ''min_rps'', observed = 0, threshold = 200, severity = critical\<rparr>] \<and>
       \<not> passed v"
  using evaluate_empty_sample_set
          [of 30 "\<lparr>max_p99_latency_ms = 150, max_p95_latency_ms = 100,
                   max_avg_latency_ms = 50, max_failure_rate_percent = 0.1, min_rps = 200,
                   max_cpu_percent = None, max_memory_mb = None,
                   max_error_rate_percent = None\<rparr>"]
  by simp



text \<open>
  C5: for every non-empty sample set, the failure rate in the summary statistics of the
  verdict is \<open>100 * failed_count / total_count\<close>, a percentage, where \<open>failed_count\<close>
  counts the samples whose \<open>success\<close> flag is false; and for every non-empty sample set
  without a negative latency and every positive duration such a verdict is produced.
\<close>

theorem evaluate_failure_rate_percent:
  "(evaluate budget samples seconds = Inr v \<longrightarrow> samples \<noteq> [] \<longrightarrow>
      failure_rate_percent (summary_stats v) =
        100 * real (length (filter (\<lambda>s. \<not> success s) samples)) / real (length samples)) \<and>
   (samples \<noteq> [] \<and> (\<forall>s \<in> set samples. 0 \<le> latency_ms s) \<and> 0 < seconds \<longrightarrow>
      (\<exists>w. evaluate budget samples seconds = Inr w \<and>
           failure_rate_percent (summary_stats w) =
             100 * real (length (filter (\<lambda>s. \<not> success s) samples)) /
               real (length samples)))"
proof (intro conjI impI)
  assume "evaluate budget samples seconds = Inr v" and "samples \<noteq> []"
  then show "failure_rate_percent (summary_stats v) =
        100 * real (length (filter (\<lambda>s. \<not> success s) samples)) / real (length samples)"
    by (auto simp: evaluate_def Let_def failure_rate_def split: if_splits)
next
  assume a: "samples \<noteq> [] \<and> (\<forall>s \<in> set samples. 0 \<le> latency_ms s) \<and> 0 < seconds"
  then have "\<not> (\<exists>s \<in> set samples. latency_ms s < 0)"
    by (auto simp: not_less)
  with a show "\<exists>w. evaluate budget samples seconds = Inr w \<and>
           failure_rate_percent (summary_stats w) =
             100 * real (length (filter (\<lambda>s. \<not> success s) samples)) /
               real (length samples)"
    by (simp add: evaluate_def Let_def failure_rate_def)
qed

text \<open>Four requests in 10 seconds, one of them failed: a failure rate of 25 percent.\<close>

theorem evaluate_failure_rate_percent_witness:
  "\<exists>w. evaluate
          \<lparr>max_p99_latency_ms = 150, max_p95_latency_ms = 100, max_avg_latency_ms = 50,
           max_failure_rate_percent = 0.1, min_rps = 200,
           max_cpu_percent = None, max_memory_mb = None, max_error_rate_percent = None\<rparr>
          [\<lparr>latency_ms = 120, success = True, endpoint = None\<rparr>,
           \<lparr>latency_ms = 40, success = False, endpoint = None\<rparr>,
           \<lparr>latency_ms = 60, success = True, endpoint = None\<rparr>,
           \<lparr>latency_ms = 80, success = True, endpoint = None\<rparr>] 10 = Inr w \<and>
        failure_rate_percent (summary_stats w) = 25"
proof -
  let ?ss = "[\<lparr>latency_ms = 120, success = True, endpoint = None\<rparr>,
              \<lparr>latency_ms = 40, success = False, endpoint = None\<rparr>,
              \<lparr>latency_ms = 60, success = True, endpoint = None\<rparr>,
              \<lparr>latency_ms = 80, success = True, endpoint = None\<rparr>]"
  have h: "?ss \<noteq> [] \<and> (\<forall>s \<in> set ?ss. 0 \<le> latency_ms s) \<and> (0::real) < 10"
    by simp
  have c: "100 * real (length (filter (\<lambda>s. \<not> success s) ?ss)) / real (length ?ss) = 25"
    by simp
  from evaluate_failure_rate_percent [of _ ?ss 10] h c
  show ?thesis by metis
qed

end
